theory Spec2Isabelle
  imports Main "HOL-Library.Word"
begin

section \<open>GenKS.py: values, errors and byte strings\<close>

text \<open>
  The module \<^verbatim>\<open>src/CompressionKey/src/GenKS.py\<close> holds five functions:
  \<^verbatim>\<open>bip38_decrypt\<close>, \<^verbatim>\<open>private_key_to_wif\<close>, \<^verbatim>\<open>private_key_to_public_key\<close>,
  \<^verbatim>\<open>public_key_to_address\<close> and \<^verbatim>\<open>encrypt_bip38\<close>. A Python \<^verbatim>\<open>bytes\<close> object is a
  list of 8-bit words, a \<^verbatim>\<open>str\<close> is a \<^typ>\<open>string\<close>, an unbounded Python integer is an
  \<^typ>\<open>int\<close>. A call either returns a value (\<open>Inr\<close>) or raises (\<open>Inl\<close>).
\<close>

type_synonym byte = "8 word"
type_synonym bytes = "byte list"

datatype error =
    FormatError
  | IntegrityError
  | InvalidKeyError
  | UnsupportedModeError
  | TypeError
  | IndexError
  | AssertionError
  | UnicodeDecodeError
  | ValueError

text \<open>The Python objects that the two password functions are handed and hand back.\<close>

datatype pyval =
    PyNone
  | PyBool bool
  | PyBytes bytes
  | PyStr string
  | PyTuple "pyval list"

subsection \<open>The two password functions\<close>

text \<open>
  \<^verbatim>\<open>
  def bip38_decrypt(encrypted_key, password):
      # Use a library like pybitcointools to handle BIP38 decryption
      # Or implement the BIP38 decryption manually (more complex)
      pass

  def encrypt_bip38(private_key, password):
      # Use BIP38 encryption method
      pass
  \<close>
  A body that is only \<^verbatim>\<open>pass\<close> falls off its end: the call returns \<^verbatim>\<open>None\<close>, whatever
  the two arguments are, and nothing in it can raise.
\<close>

definition bip38_decrypt :: "pyval \<Rightarrow> pyval \<Rightarrow> error + pyval" where
  "bip38_decrypt encrypted_key password = Inr PyNone"

definition encrypt_bip38 :: "pyval \<Rightarrow> pyval \<Rightarrow> error + pyval" where
  "encrypt_bip38 private_key password = Inr PyNone"

text \<open>
  The module's own driver encrypts the key it decrypted, and passes the compression flag
  the only way the two-parameter signature allows, as a trailing byte \<open>0x01\<close> of the key:
  \<^verbatim>\<open>
  bip38_uncompressed = encrypt_bip38(decrypted_private_key, password)
  bip38_compressed = encrypt_bip38(decrypted_private_key + b'\x01', password)
  \<close>
  \<open>decrypt_of_encrypt\<close> is the round trip \<^verbatim>\<open>bip38_decrypt(encrypt_bip38(..., p), p)\<close> on
  these arguments: an exception of the inner call propagates, its value is the record
  handed to the outer call.
\<close>

definition decrypt_of_encrypt :: "bytes \<Rightarrow> bool \<Rightarrow> pyval \<Rightarrow> error + pyval" where
  "decrypt_of_encrypt k c p =
     (case encrypt_bip38 (PyBytes (if c then k @ [0x01] else k)) p of
        Inl e \<Rightarrow> Inl e
      | Inr record \<Rightarrow> bip38_decrypt record p)"

text \<open>
  A call that hands \<open>encrypt_bip38\<close> its positional arguments as a list: the function has
  two parameters and no defaults, so a call with any other number of arguments raises
  \<open>TypeError\<close> before the body runs.
\<close>

definition encrypt_bip38_call :: "pyval list \<Rightarrow> error + pyval" where
  "encrypt_bip38_call args =
     (case args of
        [private_key, password] \<Rightarrow> encrypt_bip38 private_key password
      | _ \<Rightarrow> Inl TypeError)"

subsection \<open>Integers and byte strings\<close>

text \<open>
  \<open>string_to_number\<close> reads a byte string as a big-endian integer,
  \<open>number_to_string num l\<close> writes \<open>num\<close> on exactly \<open>l\<close> bytes, big-endian, and fails
  on a number that does not fit (or is negative), as the \<^verbatim>\<open>ecdsa\<close> package's helpers of
  these names do.
\<close>

definition string_to_number :: "bytes \<Rightarrow> int" where
  "string_to_number s = foldl (\<lambda>acc b. acc * 256 + uint b) 0 s"

definition number_to_string :: "int \<Rightarrow> nat \<Rightarrow> error + bytes" where
  "number_to_string num l =
     (if 0 \<le> num \<and> num < 256 ^ l
      then Inr (map (\<lambda>i. word_of_int (num div 256 ^ (l - 1 - i))) [0..<l])
      else Inl AssertionError)"

text \<open>The 32 bytes of a number, most significant byte first.\<close>

definition be32 :: "int \<Rightarrow> bytes" where
  "be32 num = map (\<lambda>i. word_of_int (num div 256 ^ (31 - i))) [0..<32]"

text \<open>\<^verbatim>\<open>hexdigest()\<close> and \<^verbatim>\<open>binascii.hexlify\<close>: two lowercase hex digits per byte.\<close>

definition hex_digit :: "nat \<Rightarrow> char" where
  "hex_digit d = ''0123456789abcdef'' ! d"

definition hexlify :: "bytes \<Rightarrow> string" where
  "hexlify bs = concat (map (\<lambda>b. [hex_digit (unat b div 16), hex_digit (unat b mod 16)]) bs)"

subsection \<open>Base 58 and text\<close>

text \<open>
  Modelled from the spec: the base-58 text encoding of the "Codec Primitives" (section 2),
  which the module takes from the \<^verbatim>\<open>base58\<close> package (\<^verbatim>\<open>base58.b58encode\<close>) and
  which is not part of its source. The encoder strips the leading zero bytes, reads the
  rest as a big-endian integer, writes that integer in base 58 with the Bitcoin alphabet,
  most significant digit first (a loop that divides by 58 and puts the digit of the
  remainder in front of the text so far, until the integer is 0), and puts one \<open>1\<close>,
  the alphabet's first character, in front for every zero byte stripped. The integer read
  from bytes is never negative, so it is a \<^typ>\<open>nat\<close> here.
\<close>

definition byte_of_char :: "char \<Rightarrow> byte" where
  "byte_of_char c = word_of_nat (of_char c)"

definition char_of_byte :: "byte \<Rightarrow> char" where
  "char_of_byte b = char_of (unat b)"

definition BITCOIN_ALPHABET :: bytes where
  "BITCOIN_ALPHABET =
     map byte_of_char ''123456789ABCDEFGHJKLMNPQRSTUVWXYZabcdefghijkmnopqrstuvwxyz''"

definition int_from_bytes :: "bytes \<Rightarrow> nat" where
  "int_from_bytes v = foldl (\<lambda>acc b. acc * 256 + unat b) 0 v"

function b58encode_loop :: "nat \<Rightarrow> bytes \<Rightarrow> bytes" where
  "b58encode_loop i string =
     (if i = 0 then string
      else b58encode_loop (i div 58) (BITCOIN_ALPHABET ! (i mod 58) # string))"
  by pat_completeness auto
termination
  by (relation "measure (\<lambda>(i, string). i)") auto

declare b58encode_loop.simps [simp del]

definition b58encode_int :: "nat \<Rightarrow> bytes" where
  "b58encode_int i = b58encode_loop i []"

definition b58encode :: "bytes \<Rightarrow> bytes" where
  "b58encode v =
     (let origlen = length v;
          v' = dropWhile (\<lambda>b. b = 0) v;
          newlen = length v';
          acc = int_from_bytes v';
          result = b58encode_int acc
      in replicate (origlen - newlen) (BITCOIN_ALPHABET ! 0) @ result)"

text \<open>
  \<^verbatim>\<open>bytes.decode()\<close> on ASCII bytes gives the text with the same character codes. A byte
  from \<open>0x80\<close> on would be part of a multi-byte UTF-8 sequence, which a \<^typ>\<open>string\<close> of
  8-bit characters cannot hold; the model reports it as \<open>UnicodeDecodeError\<close>. The
  base-58 encoder never produces one (\<open>b58encode_ascii\<close> below).
\<close>

definition is_ascii :: "bytes \<Rightarrow> bool" where
  "is_ascii bs = list_all (\<lambda>b. b < 0x80) bs"

definition decode :: "bytes \<Rightarrow> error + string" where
  "decode bs = (if is_ascii bs then Inr (map char_of_byte bs) else Inl UnicodeDecodeError)"

subsection \<open>private_key_to_wif\<close>

text \<open>
  \<^verbatim>\<open>
  def private_key_to_wif(private_key, compressed=False):
      # Convert private key to WIF format (Wallet Import Format)
      prefix = b'\x80'  # Mainnet prefix
      if compressed:
          private_key += b'\x01'  # Add compressed byte
      extended_key = prefix + private_key
      checksum = hashlib.sha256(hashlib.sha256(extended_key).digest()).digest()[:4]
      return base58.b58encode(extended_key + checksum).decode()
  \<close>
  \<open>sha256\<close> stands for \<^verbatim>\<open>lambda b: hashlib.sha256(b).digest()\<close>, a primitive of the
  standard library that the function is given as a parameter. \<^verbatim>\<open>private_key\<close> is an
  immutable \<^verbatim>\<open>bytes\<close> object, so \<^verbatim>\<open>+=\<close> rebinds the local name only.
\<close>

definition private_key_to_wif :: "(bytes \<Rightarrow> bytes) \<Rightarrow> bytes \<Rightarrow> bool \<Rightarrow> error + string" where
  "private_key_to_wif sha256 private_key compressed =
     (let prefix = [0x80];
          private_key = (if compressed then private_key @ [0x01] else private_key);
          extended_key = prefix @ private_key;
          checksum = take 4 (sha256 (sha256 extended_key))
      in decode (b58encode (extended_key @ checksum)))"

text \<open>
  The WIF encoder in the specification's words (section 4.4): the payload is the version
  byte, the key and the byte \<open>0x01\<close> if compressed; the checksum is the first four bytes
  of the double hash of the payload; the result is the base-58 text of both.
\<close>

definition wif_payload :: "byte \<Rightarrow> bytes \<Rightarrow> bool \<Rightarrow> bytes" where
  "wif_payload versionByte key compressed =
     versionByte # key @ (if compressed then [0x01] else [])"

definition double_hash_checksum :: "(bytes \<Rightarrow> bytes) \<Rightarrow> bytes \<Rightarrow> bytes" where
  "double_hash_checksum sha256 payload = take 4 (sha256 (sha256 payload))"

definition WIFEncoder_encode :: "(bytes \<Rightarrow> bytes) \<Rightarrow> bytes \<Rightarrow> bool \<Rightarrow> byte \<Rightarrow> string" where
  "WIFEncoder_encode sha256 key compressed versionByte =
     map char_of_byte
       (b58encode (wif_payload versionByte key compressed
                   @ double_hash_checksum sha256 (wif_payload versionByte key compressed)))"

subsection \<open>The curve SECP256k1\<close>

text \<open>
  Modelled from the spec: the elliptic-curve primitive, "EC scalar multiplication over a
  fixed named curve" (sections 2 and 6), which the module takes from the \<^verbatim>\<open>ecdsa\<close>
  package and which is not part of its source. The curve named in the source is
  \<^verbatim>\<open>SECP256k1\<close>: \<open>y\<^sup>2 = x\<^sup>3 + 7\<close> over the prime field of \<open>curve_p\<close>, with base
  point \<open>(Gx, Gy)\<close> of order \<open>curve_n\<close>. A point is \<open>INFINITY\<close> or has two affine
  coordinates.
\<close>

definition curve_p :: int where
  "curve_p = 0xFFFFFFFFFFFFFFFFFFFFFFFFFFFFFFFFFFFFFFFFFFFFFFFFFFFFFFFEFFFFFC2F"

definition curve_n :: int where
  "curve_n = 0xFFFFFFFFFFFFFFFFFFFFFFFFFFFFFFFEBAAEDCE6AF48A03BBFD25E8CD0364141"

definition Gx :: int where
  "Gx = 0x79BE667EF9DCBBAC55A06295CE870B07029BFCDB2DCE28D959F2815B16F81798"

definition Gy :: int where
  "Gy = 0x483ADA7726A3C4655DA4FBFC0E1108A8FD17B448A68554199C47D08FFB10D4B8"

datatype point = INFINITY | Point int int

text \<open>The inverse modulo \<open>m\<close> by the extended Euclidean algorithm.\<close>

function inverse_loop :: "int \<Rightarrow> int \<Rightarrow> int \<Rightarrow> int \<Rightarrow> int" where
  "inverse_loop lm low hm high =
     (if 1 < low
      then inverse_loop (hm - lm * (high div low)) (high - low * (high div low)) lm low
      else lm)"
  by pat_completeness auto
termination
proof (relation "measure (\<lambda>(lm, low, hm, high). nat low)")
  show "wf (measure (\<lambda>(lm, low, hm, high). nat low))"
    by simp
next
  fix lm low hm high :: int
  assume low: "1 < low"
  have "high - low * (high div low) = high mod low"
    by (simp add: minus_mult_div_eq_mod)
  moreover have "high mod low < low"
    using low by simp
  ultimately show
    "((hm - lm * (high div low), high - low * (high div low), lm, low), lm, low, hm, high)
       \<in> measure (\<lambda>(lm, low, hm, high). nat low)"
    using low by simp
qed

declare inverse_loop.simps [simp del]

definition inverse_mod :: "int \<Rightarrow> int \<Rightarrow> int" where
  "inverse_mod a m = (if a mod m = 0 then 0 else inverse_loop 1 (a mod m) 0 m mod m)"

text \<open>The tangent and chord rules, with the slope \<open>l\<close> already reduced modulo \<open>curve_p\<close>.\<close>

definition third_point :: "int \<Rightarrow> int \<Rightarrow> int \<Rightarrow> int \<Rightarrow> point" where
  "third_point l x1 y1 x2 =
     Point ((l * l - x1 - x2) mod curve_p)
           ((l * (x1 - (l * l - x1 - x2) mod curve_p) - y1) mod curve_p)"

fun point_double :: "point \<Rightarrow> point" where
  "point_double INFINITY = INFINITY"
| "point_double (Point x y) =
     (if y mod curve_p = 0 then INFINITY
      else third_point (3 * x * x * inverse_mod (2 * y) curve_p mod curve_p) x y x)"

fun point_add :: "point \<Rightarrow> point \<Rightarrow> point" where
  "point_add INFINITY Q = Q"
| "point_add (Point x1 y1) INFINITY = Point x1 y1"
| "point_add (Point x1 y1) (Point x2 y2) =
     (if (x1 - x2) mod curve_p = 0
      then (if (y1 + y2) mod curve_p = 0 then INFINITY else point_double (Point x1 y1))
      else third_point ((y2 - y1) * inverse_mod (x2 - x1) curve_p mod curve_p) x1 y1 x2)"

text \<open>Double and add, from the most significant bit of the scalar down.\<close>

definition add_if_odd :: "int \<Rightarrow> point \<Rightarrow> point \<Rightarrow> point" where
  "add_if_odd k Q P = (if k mod 2 = 1 then point_add Q P else Q)"

function point_mul :: "int \<Rightarrow> point \<Rightarrow> point" where
  "point_mul k P =
     (if k \<le> 0 then INFINITY
      else add_if_odd k (point_double (point_mul (k div 2) P)) P)"
  by pat_completeness auto
termination
  by (relation "measure (\<lambda>(k, P). nat k)") auto

declare point_mul.simps [simp del]

definition SECP256k1_generator_mul :: "int \<Rightarrow> point" where
  "SECP256k1_generator_mul secexp = point_mul secexp (Point Gx Gy)"

subsection \<open>Signing keys and verifying keys\<close>

text \<open>
  Modelled from the spec: \<^verbatim>\<open>SigningKey.from_string(private_key, curve=SECP256k1)\<close>,
  \<^verbatim>\<open>sk.verifying_key\<close> and \<^verbatim>\<open>vk.to_string()\<close> of the \<^verbatim>\<open>ecdsa\<close> package, which are
  not part of the module's source. Section 3 gives the private key as 32 big-endian bytes
  with \<open>1 \<le> value < curveOrder\<close>; section 4.2 has the derivation "multiply the curve base
  point by the key scalar" and makes it fail with \<open>InvalidKeyError\<close> "if the scalar is 0
  or \<ge> curveOrder"; section 3 gives the uncompressed key as the prefix, then the 32-byte
  X, then the 32-byte Y, so the raw string of a verifying key is X then Y, 64 bytes. A
  key string of another length is refused with the same error. The scalar
  multiplication \<open>generator_mul\<close> is a parameter: \<open>SECP256k1_generator_mul\<close> is the
  instance for the curve above.
\<close>

record signing_key =
  secexp :: int
  verifying_key :: point

definition SigningKey_from_string :: "(int \<Rightarrow> point) \<Rightarrow> bytes \<Rightarrow> error + signing_key" where
  "SigningKey_from_string generator_mul string =
     (if length string \<noteq> 32 then Inl InvalidKeyError
      else if \<not> (1 \<le> string_to_number string \<and> string_to_number string < curve_n)
      then Inl InvalidKeyError
      else Inr \<lparr>secexp = string_to_number string,
                verifying_key = generator_mul (string_to_number string)\<rparr>)"

fun to_string :: "point \<Rightarrow> error + bytes" where
  "to_string INFINITY = Inl TypeError"
| "to_string (Point x y) =
     (case number_to_string x 32 of
        Inl e \<Rightarrow> Inl e
      | Inr x_str \<Rightarrow>
          (case number_to_string y 32 of
             Inl e \<Rightarrow> Inl e
           | Inr y_str \<Rightarrow> Inr (x_str @ y_str)))"

subsection \<open>private_key_to_public_key\<close>

text \<open>
  \<^verbatim>\<open>
  def private_key_to_public_key(private_key, compressed=False):
      sk = SigningKey.from_string(private_key, curve=SECP256k1)
      vk = sk.verifying_key
      if compressed:
          return b'\x02' + vk.to_string()[:32] if vk.to_string()[32] % 2 == 0 else b'\x03' + vk.to_string()[:32]
      else:
          return b'\x04' + vk.to_string()
  \<close>
  The conditional expression binds weaker than \<^verbatim>\<open>+\<close>: its condition is evaluated first
  and reads the byte at index 32 of the raw string, which raises \<open>IndexError\<close> on a string
  of 32 bytes or fewer; either branch then returns a prefix byte and the first 32 bytes.
\<close>

definition private_key_to_public_key ::
  "(int \<Rightarrow> point) \<Rightarrow> bytes \<Rightarrow> bool \<Rightarrow> error + bytes" where
  "private_key_to_public_key generator_mul private_key compressed =
     (case SigningKey_from_string generator_mul private_key of
        Inl e \<Rightarrow> Inl e
      | Inr sk \<Rightarrow>
          (case to_string (verifying_key sk) of
             Inl e \<Rightarrow> Inl e
           | Inr s \<Rightarrow>
               if compressed then
                 (if length s \<le> 32 then Inl IndexError
                  else if unat (s ! 32) mod 2 = 0 then Inr (0x02 # take 32 s)
                  else Inr (0x03 # take 32 s))
               else Inr (0x04 # s)))"

text \<open>
  What the derivation needs from the scalar multiplication: a point that is not
  \<open>INFINITY\<close> and whose coordinates fit on 32 bytes each.
\<close>

fun affine_32 :: "point \<Rightarrow> bool" where
  "affine_32 INFINITY = False"
| "affine_32 (Point x y) = (0 \<le> x \<and> x < 256 ^ 32 \<and> 0 \<le> y \<and> y < 256 ^ 32)"

text \<open>The point \<open>4 \<cdot> G\<close> of SECP256k1, the public point of the private key 4.\<close>

definition X4 :: int where
  "X4 = 0xE493DBF1C10D80F3581E4904930B1404CC6C13900EE0758474FA94ABE8C4CD13"

definition Y4 :: int where
  "Y4 = 0x51ED993EA0D455B75642E2098EA51448D967AE33BFBDFE40CFE97BDC47739922"

subsection \<open>hashlib\<close>

text \<open>
  The module \<^verbatim>\<open>hashlib\<close> of the standard library is imported by \<^verbatim>\<open>GenKS.py\<close>, not part
  of it. \<^verbatim>\<open>hashlib.new(name)\<close> makes a hash object for the algorithm of that name, with
  nothing fed to it yet, and raises \<open>ValueError\<close> (unsupported hash type) for a name the
  interpreter has no algorithm for; \<^verbatim>\<open>update\<close> appends to what the object has been fed;
  \<^verbatim>\<open>hexdigest\<close> gives the digest of what was fed, in lowercase hex. The algorithms that
  an interpreter provides are a partial map from names to digest functions.
\<close>

type_synonym algorithms = "string \<Rightarrow> (bytes \<Rightarrow> bytes) option"

record hash_object =
  algorithm :: "bytes \<Rightarrow> bytes"
  fed :: bytes

definition hashlib_new :: "algorithms \<Rightarrow> string \<Rightarrow> error + hash_object" where
  "hashlib_new available name =
     (case available name of
        None \<Rightarrow> Inl ValueError
      | Some digest_of \<Rightarrow> Inr \<lparr>algorithm = digest_of, fed = []\<rparr>)"

definition update :: "hash_object \<Rightarrow> bytes \<Rightarrow> hash_object" where
  "update obj data = obj\<lparr>fed := fed obj @ data\<rparr>"

definition digest :: "hash_object \<Rightarrow> bytes" where
  "digest obj = algorithm obj (fed obj)"

definition hexdigest :: "hash_object \<Rightarrow> string" where
  "hexdigest obj = hexlify (digest obj)"

text \<open>
  The names of \<^verbatim>\<open>hashlib.algorithms_available\<close> in CPython 3.11 on OpenSSL 3.0: the
  algorithms that the standard library guarantees and those that OpenSSL adds. No name
  among them is \<^verbatim>\<open>keccak256\<close>: the standard library has SHA-3 (\<^verbatim>\<open>sha3_256\<close>), which
  pads differently, and no Keccak-256. \<open>cpython_algorithms digest_of\<close> is the map of such
  an interpreter, whatever its digest functions \<open>digest_of name\<close> compute. (Other
  spellings of these names that OpenSSL accepts are left out; none of them spells
  \<^verbatim>\<open>keccak256\<close>.)
\<close>

definition algorithms_available :: "string list" where
  "algorithms_available =
     [''blake2b'', ''blake2s'', ''md5'', ''md5-sha1'', ''ripemd160'', ''sha1'', ''sha224'',
      ''sha256'', ''sha384'', ''sha3_224'', ''sha3_256'', ''sha3_384'', ''sha3_512'',
      ''sha512'', ''sha512_224'', ''sha512_256'', ''shake_128'', ''shake_256'', ''sm3'']"

definition cpython_algorithms :: "(string \<Rightarrow> bytes \<Rightarrow> bytes) \<Rightarrow> algorithms" where
  "cpython_algorithms digest_of name =
     (if name \<in> set algorithms_available then Some (digest_of name) else None)"


subsection \<open>public_key_to_address\<close>

text \<open>
  \<^verbatim>\<open>
  def public_key_to_address(public_key):
      keccak = hashlib.new('keccak256')
      keccak.update(public_key[1:] if public_key[0] == 0x04 else public_key)  # Skip first byte if uncompressed
      return '0x' + keccak.hexdigest()[-40:]
  \<close>
  The first statement raises \<open>ValueError\<close> when the interpreter has no algorithm named
  \<^verbatim>\<open>keccak256\<close>, before the public key is looked at. After it, \<^verbatim>\<open>public_key[0]\<close> raises
  \<open>IndexError\<close> on an empty byte string; the slice \<^verbatim>\<open>[-40:]\<close> keeps the last 40
  characters, or all of a shorter text.
\<close>

definition public_key_to_address :: "algorithms \<Rightarrow> bytes \<Rightarrow> error + string" where
  "public_key_to_address available public_key =
     (case hashlib_new available ''keccak256'' of
        Inl e \<Rightarrow> Inl e
      | Inr keccak \<Rightarrow>
          if public_key = [] then Inl IndexError
          else let keccak = update keccak
                     (if public_key ! 0 = 0x04 then drop 1 public_key else public_key)
               in Inr (''0x'' @ drop (length (hexdigest keccak) - 40) (hexdigest keccak)))"

text \<open>The words of the account-model rule (section 4.3): the last bytes of a digest, and
  a text of lowercase hex digits.\<close>

definition last_bytes :: "nat \<Rightarrow> bytes \<Rightarrow> bytes" where
  "last_bytes n d = drop (length d - n) d"

definition lowercase_hex :: "string \<Rightarrow> bool" where
  "lowercase_hex s = list_all (\<lambda>c. c \<in> set ''0123456789abcdef'') s"

subsection \<open>Calls, one after another\<close>












section \<open>The stubs\<close>

lemma bip38_decrypt_returns_None: "bip38_decrypt encrypted_key password = Inr PyNone"
  by (simp add: bip38_decrypt_def)

lemma encrypt_bip38_returns_None: "encrypt_bip38 private_key password = Inr PyNone"
  by (simp add: encrypt_bip38_def)

text \<open>
  C9. Whatever the encrypted key, the private key and the passphrase are, both
  \<open>bip38_decrypt\<close> and \<open>encrypt_bip38\<close> return \<^verbatim>\<open>None\<close> and do not raise; two calls on
  different arguments return the same value, so the result tells a caller nothing about
  success or failure.
\<close>

theorem stubs_return_None:
  "bip38_decrypt encrypted_key password = Inr PyNone
   \<and> encrypt_bip38 private_key password = Inr PyNone
   \<and> bip38_decrypt encrypted_key password = bip38_decrypt encrypted_key' password'
   \<and> encrypt_bip38 private_key password = encrypt_bip38 private_key' password'"
  by (simp add: bip38_decrypt_returns_None encrypt_bip38_returns_None)

text \<open>
  C1, on the code as it is. The claim is the round trip
  \<^verbatim>\<open>bip38_decrypt(encrypt_bip38(k, p, c), p) == (k, c)\<close>. In the module, for every key
  \<open>k\<close>, flag \<open>c\<close> and passphrase \<open>p\<close>, decrypting what \<open>encrypt_bip38\<close> returned gives
  \<^verbatim>\<open>None\<close>, which is not the pair of the key and the flag; and the call with the
  flag as a third argument, as the claim writes it, raises \<open>TypeError\<close>.
\<close>

theorem round_trip_returns_None:
  "decrypt_of_encrypt k c p = Inr PyNone
   \<and> decrypt_of_encrypt k c p \<noteq> Inr (PyTuple [PyBytes k, PyBool c])
   \<and> encrypt_bip38_call [PyBytes k, p, PyBool c] = Inl TypeError"
  by (simp add: decrypt_of_encrypt_def encrypt_bip38_call_def bip38_decrypt_returns_None
      encrypt_bip38_returns_None)

text \<open>
  C5, on the code as it is. The claim is that \<open>bip38_decrypt\<close> raises \<open>IntegrityError\<close>
  on a passphrase other than the one the record was made with. In the module, for every
  record and every passphrase \<open>p'\<close>, the right one or a wrong one, the call returns
  \<^verbatim>\<open>None\<close> and does not raise \<open>IntegrityError\<close>.
\<close>

theorem wrong_passphrase_not_detected:
  "bip38_decrypt record p' = Inr PyNone \<and> bip38_decrypt record p' \<noteq> Inl IntegrityError"
  by (simp add: bip38_decrypt_returns_None)

section \<open>The WIF text\<close>

lemma alphabet_length: "length BITCOIN_ALPHABET = 58"
  by (simp add: BITCOIN_ALPHABET_def)

lemma alphabet_ascii: "list_all (\<lambda>b. b < 0x80) BITCOIN_ALPHABET"
  by (simp add: BITCOIN_ALPHABET_def byte_of_char_def)

lemma alphabet_nth_ascii: "n < 58 \<Longrightarrow> BITCOIN_ALPHABET ! n < 0x80"
  using alphabet_ascii alphabet_length by (simp add: list_all_length)

lemma b58encode_loop_ascii:
  "list_all (\<lambda>b. b < 0x80) string \<Longrightarrow> list_all (\<lambda>b. b < 0x80) (b58encode_loop i string)"
proof (induction i string rule: b58encode_loop.induct)
  case (1 i string)
  show ?case
  proof (cases "i = 0")
    case True
    with "1.prems" show ?thesis by (simp add: b58encode_loop.simps)
  next
    case False
    have "BITCOIN_ALPHABET ! (i mod 58) < 0x80"
      by (rule alphabet_nth_ascii) simp
    with "1.prems" have "list_all (\<lambda>b. b < 0x80) (BITCOIN_ALPHABET ! (i mod 58) # string)"
      by simp
    from "1.IH" [OF False this] False show ?thesis
      by (simp add: b58encode_loop.simps [of i string])
  qed
qed

lemma b58encode_ascii: "is_ascii (b58encode v)"
proof -
  have "BITCOIN_ALPHABET ! 0 < 0x80"
    by (rule alphabet_nth_ascii) simp
  moreover have "list_all (\<lambda>b. b < 0x80) (b58encode_int n)" for n
    unfolding b58encode_int_def by (rule b58encode_loop_ascii) simp
  ultimately show ?thesis
    by (auto simp add: is_ascii_def b58encode_def Let_def list_all_iff)
qed

lemma decode_b58encode: "decode (b58encode v) = Inr (map char_of_byte (b58encode v))"
  by (simp add: decode_def b58encode_ascii)

text \<open>
  C3. For every private key \<open>k\<close> and compression flag \<open>c\<close>, \<open>private_key_to_wif\<close>
  returns the base-58 text of payload and checksum, where the payload is the version byte
  \<open>0x80\<close>, then \<open>k\<close>, then the byte \<open>0x01\<close> exactly when \<open>c\<close> holds, and the checksum is
  the first four bytes of the double SHA-256 hash of the payload. The call does not raise.
\<close>

theorem private_key_to_wif_encoding:
  "private_key_to_wif sha256 k c = Inr (WIFEncoder_encode sha256 k c 0x80)
   \<and> wif_payload 0x80 k True = [0x80] @ k @ [0x01]
   \<and> wif_payload 0x80 k False = [0x80] @ k
   \<and> double_hash_checksum sha256 (wif_payload 0x80 k c)
       = take 4 (sha256 (sha256 (wif_payload 0x80 k c)))"
proof -
  have "private_key_to_wif sha256 k c = Inr (WIFEncoder_encode sha256 k c 0x80)"
  proof (cases c)
    case True
    then show ?thesis
      by (simp add: private_key_to_wif_def WIFEncoder_encode_def double_hash_checksum_def
          wif_payload_def decode_b58encode)
  next
    case False
    then show ?thesis
      by (simp add: private_key_to_wif_def WIFEncoder_encode_def double_hash_checksum_def
          wif_payload_def decode_b58encode)
  qed
  then show ?thesis
    by (simp add: wif_payload_def double_hash_checksum_def)
qed

section \<open>The public key\<close>

lemma length_be32: "length (be32 num) = 32"
  by (simp add: be32_def)

lemma number_to_string_32:
  "0 \<le> num \<Longrightarrow> num < 256 ^ 32 \<Longrightarrow> number_to_string num 32 = Inr (be32 num)"
  by (simp add: number_to_string_def be32_def)

lemma to_string_affine_32:
  "affine_32 (Point x y) \<Longrightarrow> to_string (Point x y) = Inr (be32 x @ be32 y)"
  by (simp add: number_to_string_32)

lemma be32_head: "be32 num ! 0 = word_of_int (num div 256 ^ 31)"
  by (simp add: be32_def nth_map_upt del: upt.simps)

lemma byte_parity: "(unat (word_of_int z :: byte) mod 2 = 0) = even z"
  by (metis even_iff_mod_2_eq_zero even_of_int_iff even_of_nat of_nat_unat
    word_of_int_uint)

lemma raw_index_32: "(be32 x @ be32 y) ! 32 = word_of_int (y div 256 ^ 31)"
  by (simp add: nth_append length_be32 be32_head)

lemma raw_take_32: "take 32 (be32 x @ be32 y) = be32 x"
  by (simp add: length_be32)

lemma string_to_number_zeros: "string_to_number (replicate n 0 @ bs) = string_to_number bs"
  unfolding string_to_number_def by (induction n) simp_all

lemma SigningKey_from_string_invalid:
  "string_to_number key = 0 \<or> curve_n \<le> string_to_number key \<Longrightarrow>
   SigningKey_from_string generator_mul key = Inl InvalidKeyError"
  by (auto simp add: SigningKey_from_string_def)

text \<open>
  What the function returns on a valid key whose public point is \<open>(x, y)\<close>: the
  compressed form has the prefix \<open>0x02\<close> exactly when \<open>y div 256 ^ 31\<close>, the most
  significant of the 32 bytes of \<open>y\<close>, is even.
\<close>

lemma private_key_to_public_key_valid:
  assumes "length key = 32"
    and "1 \<le> string_to_number key" and "string_to_number key < curve_n"
    and "generator_mul (string_to_number key) = Point x y" and "affine_32 (Point x y)"
  shows "private_key_to_public_key generator_mul key True =
           Inr ((if even (y div 256 ^ 31) then 0x02 else 0x03) # be32 x)"
    and "private_key_to_public_key generator_mul key False = Inr (0x04 # be32 x @ be32 y)"
proof -
  have sk: "SigningKey_from_string generator_mul key =
      Inr \<lparr>secexp = string_to_number key, verifying_key = Point x y\<rparr>"
    using assms(1-4) by (simp add: SigningKey_from_string_def)
  have raw: "to_string (Point x y) = Inr (be32 x @ be32 y)"
    using assms(5) by (rule to_string_affine_32)
  show "private_key_to_public_key generator_mul key True =
           Inr ((if even (y div 256 ^ 31) then 0x02 else 0x03) # be32 x)"
    by (simp add: private_key_to_public_key_def sk raw raw_index_32 raw_take_32 length_be32
        byte_parity del: to_string.simps)
  show "private_key_to_public_key generator_mul key False = Inr (0x04 # be32 x @ be32 y)"
    by (simp add: private_key_to_public_key_def sk raw del: to_string.simps)
qed

subsection \<open>The coordinates of a multiple of the base point\<close>

text \<open>
  On SECP256k1 itself every multiple of the base point that is not \<open>INFINITY\<close> has
  coordinates reduced modulo \<open>curve_p\<close>, which fit on 32 bytes: for this instance the
  condition \<open>affine_32\<close> of the theorems below says no more than that the multiple is a
  finite point.
\<close>

lemma curve_p_fits: "0 < curve_p" "curve_p < 256 ^ 32"
  by (simp_all add: curve_p_def)

lemma third_point_range: "affine_32 (third_point l x1 y1 x2)"
proof -
  have "0 \<le> a mod curve_p \<and> a mod curve_p < 256 ^ 32" for a
    using curve_p_fits pos_mod_bound [of curve_p a] pos_mod_sign [of curve_p a] by linarith
  then show ?thesis
    by (simp add: third_point_def)
qed

lemma point_double_range: "point_double P = INFINITY \<or> affine_32 (point_double P)"
  by (cases P) (simp_all add: third_point_range)

lemma point_add_range:
  assumes "affine_32 P" and "Q = INFINITY \<or> affine_32 Q"
  shows "point_add Q P = INFINITY \<or> affine_32 (point_add Q P)"
proof (cases Q)
  case INFINITY
  with assms(1) show ?thesis by simp
next
  case (Point x1 y1)
  with assms(2) have q: "affine_32 (Point x1 y1)" by simp
  obtain x2 y2 where p: "P = Point x2 y2"
    using assms(1) by (cases P) simp_all
  show ?thesis
    using point_double_range [of "Point x1 y1"] third_point_range
    by (simp add: Point p del: point_double.simps affine_32.simps)
qed

lemma point_mul_range:
  "affine_32 P \<Longrightarrow> point_mul k P = INFINITY \<or> affine_32 (point_mul k P)"
proof (induction k P rule: point_mul.induct)
  case (1 k P)
  show ?case
  proof (cases "k \<le> 0")
    case True
    then show ?thesis by (simp add: point_mul.simps)
  next
    case False
    let ?h = "point_double (point_mul (k div 2) P)"
    have h: "?h = INFINITY \<or> affine_32 ?h"
      by (rule point_double_range)
    have "add_if_odd k ?h P = INFINITY \<or> affine_32 (add_if_odd k ?h P)"
      using h point_add_range [OF "1.prems" h] by (simp add: add_if_odd_def)
    with False show ?thesis
      by (simp add: point_mul.simps [of k P])
  qed
qed

lemma SECP256k1_generator_mul_range:
  "SECP256k1_generator_mul k \<noteq> INFINITY \<Longrightarrow> affine_32 (SECP256k1_generator_mul k)"
proof -
  have "affine_32 (Point Gx Gy)"
    by (simp add: Gx_def Gy_def)
  from point_mul_range [OF this, of k] show
    "SECP256k1_generator_mul k \<noteq> INFINITY \<Longrightarrow> affine_32 (SECP256k1_generator_mul k)"
    by (simp add: SECP256k1_generator_mul_def)
qed

subsection \<open>Three concrete keys\<close>

lemma key4_length: "length (replicate 31 0 @ [4 :: byte]) = 32"
  by simp

lemma key4_number: "string_to_number (replicate 31 0 @ [4]) = 4"
  by (simp add: string_to_number_zeros) (simp add: string_to_number_def)

lemma key0_number: "string_to_number (replicate 32 0) = 0"
  using string_to_number_zeros [of 32 "[]"] by (simp add: string_to_number_def)

lemma keyff_number: "string_to_number (replicate 32 0xFF) = 256 ^ 32 - 1"
  by code_simp

lemma curve_n_bounds: "4 < curve_n" "curve_n \<le> 256 ^ 32 - 1"
  by (simp_all add: curve_n_def)

lemma SECP256k1_generator_mul_4: "SECP256k1_generator_mul 4 = Point X4 Y4"
  by code_simp

lemma affine_32_4: "affine_32 (Point X4 Y4)"
  by (simp add: X4_def Y4_def)

lemma Y4_even: "even Y4"
  by (simp add: Y4_def)

lemma Y4_top_byte_odd: "odd (Y4 div 256 ^ 31)"
  by (simp add: Y4_def)

text \<open>
  C2, at the private key 4 (31 zero bytes, then \<open>0x04\<close>). Its public point on
  SECP256k1 is \<open>(X4, Y4)\<close> and \<open>Y4\<close> is even, so the compressed key should begin with
  \<open>0x02\<close>; \<open>private_key_to_public_key\<close> returns \<open>0x03\<close> and the 32 bytes of \<open>X4\<close>,
  because the byte it tests, at index 32 of the raw string, is the most significant byte
  \<open>0x51\<close> of \<open>Y4\<close>, not the least significant one. The uncompressed form is \<open>0x04\<close>,
  then X, then Y, as the claim says.
\<close>

theorem compressed_prefix_wrong_at_key_4:
  "private_key_to_public_key SECP256k1_generator_mul (replicate 31 0 @ [4]) True
     = Inr (0x03 # be32 X4)
   \<and> private_key_to_public_key SECP256k1_generator_mul (replicate 31 0 @ [4]) False
     = Inr (0x04 # be32 X4 @ be32 Y4)
   \<and> SECP256k1_generator_mul (string_to_number (replicate 31 0 @ [4])) = Point X4 Y4
   \<and> even Y4
   \<and> Y4 div 256 ^ 31 = 0x51"
proof -
  have point: "SECP256k1_generator_mul (string_to_number (replicate 31 0 @ [4])) = Point X4 Y4"
    by (simp only: key4_number SECP256k1_generator_mul_4)
  have valid: "1 \<le> string_to_number (replicate 31 0 @ [4])"
    "string_to_number (replicate 31 0 @ [4]) < curve_n"
    using curve_n_bounds(1) by (simp_all only: key4_number)
  have "private_key_to_public_key SECP256k1_generator_mul (replicate 31 0 @ [4]) True
      = Inr ((if even (Y4 div 256 ^ 31) then 0x02 else 0x03) # be32 X4)"
    by (rule private_key_to_public_key_valid(1) [of "replicate 31 0 @ [4]" SECP256k1_generator_mul X4 Y4,
          OF key4_length valid point affine_32_4])
  then have compressed:
    "private_key_to_public_key SECP256k1_generator_mul (replicate 31 0 @ [4]) True
      = Inr (0x03 # be32 X4)"
    using Y4_top_byte_odd by simp
  have uncompressed:
    "private_key_to_public_key SECP256k1_generator_mul (replicate 31 0 @ [4]) False
      = Inr (0x04 # be32 X4 @ be32 Y4)"
    by (rule private_key_to_public_key_valid(2) [of "replicate 31 0 @ [4]" SECP256k1_generator_mul X4 Y4,
          OF key4_length valid point affine_32_4])
  have "Y4 div 256 ^ 31 = 0x51"
    by (simp add: Y4_def)
  with compressed uncompressed point Y4_even show ?thesis
    by blast
qed

text \<open>
  C6. A 32-byte key whose scalar is 0 or at least the curve order makes
  \<open>private_key_to_public_key\<close> fail with \<open>InvalidKeyError\<close>; on a scalar from 1 to the
  order minus 1 the call returns a public key, given that the scalar multiplication
  answers with a finite point whose coordinates fit on 32 bytes.
\<close>

theorem private_key_to_public_key_validation:
  assumes "length key = 32"
  shows "(string_to_number key = 0 \<or> curve_n \<le> string_to_number key
            \<longrightarrow> private_key_to_public_key generator_mul key c = Inl InvalidKeyError)
       \<and> (1 \<le> string_to_number key \<and> string_to_number key < curve_n
            \<and> affine_32 (generator_mul (string_to_number key))
            \<longrightarrow> (\<exists>pk. private_key_to_public_key generator_mul key c = Inr pk))"
proof (intro conjI impI)
  assume "string_to_number key = 0 \<or> curve_n \<le> string_to_number key"
  then have "SigningKey_from_string generator_mul key = Inl InvalidKeyError"
    by (rule SigningKey_from_string_invalid)
  then show "private_key_to_public_key generator_mul key c = Inl InvalidKeyError"
    by (simp add: private_key_to_public_key_def)
next
  assume valid: "1 \<le> string_to_number key \<and> string_to_number key < curve_n
    \<and> affine_32 (generator_mul (string_to_number key))"
  then obtain x y where point: "generator_mul (string_to_number key) = Point x y"
    by (cases "generator_mul (string_to_number key)") auto
  with valid have affine: "affine_32 (Point x y)"
    by simp
  from valid have range: "1 \<le> string_to_number key" "string_to_number key < curve_n"
    by simp_all
  show "\<exists>pk. private_key_to_public_key generator_mul key c = Inr pk"
  proof (cases c)
    case True
    with private_key_to_public_key_valid(1) [of key generator_mul x y, OF assms range point affine]
    show ?thesis
      by simp
  next
    case False
    with private_key_to_public_key_valid(2) [of key generator_mul x y, OF assms range point affine]
    show ?thesis
      by simp
  qed
qed

theorem private_key_to_public_key_validation_witness:
  "private_key_to_public_key SECP256k1_generator_mul (replicate 32 0) True = Inl InvalidKeyError
   \<and> private_key_to_public_key SECP256k1_generator_mul (replicate 32 0xFF) False
       = Inl InvalidKeyError
   \<and> (\<exists>pk. private_key_to_public_key SECP256k1_generator_mul (replicate 31 0 @ [4]) True
              = Inr pk)"
proof -
  have zero: "private_key_to_public_key SECP256k1_generator_mul (replicate 32 0) True
      = Inl InvalidKeyError"
    using private_key_to_public_key_validation
      [of "replicate 32 0" SECP256k1_generator_mul True]
    by (simp add: key0_number)
  have "curve_n \<le> string_to_number (replicate 32 0xFF)"
    using curve_n_bounds(2) by (simp only: keyff_number)
  then have top: "private_key_to_public_key SECP256k1_generator_mul (replicate 32 0xFF) False
      = Inl InvalidKeyError"
    using private_key_to_public_key_validation
      [of "replicate 32 0xFF" SECP256k1_generator_mul False]
    by simp
  have "affine_32 (SECP256k1_generator_mul (string_to_number (replicate 31 0 @ [4])))"
    by (simp only: key4_number SECP256k1_generator_mul_4 affine_32_4)
  moreover have "1 \<le> string_to_number (replicate 31 0 @ [4])"
    and "string_to_number (replicate 31 0 @ [4]) < curve_n"
    using curve_n_bounds(1) by (simp_all only: key4_number)
  ultimately have "\<exists>pk. private_key_to_public_key SECP256k1_generator_mul
      (replicate 31 0 @ [4]) True = Inr pk"
    using private_key_to_public_key_validation
      [OF key4_length, of SECP256k1_generator_mul True]
    by blast
  with zero top show ?thesis
    by blast
qed

text \<open>
  C7. On a valid private key (32 bytes, scalar from 1 to the order minus 1), for which the
  scalar multiplication answers with a finite point whose coordinates fit on 32 bytes,
  the compressed public key has exactly 33 bytes and the uncompressed one exactly 65.
\<close>

theorem public_key_lengths:
  assumes "length key = 32"
    and "1 \<le> string_to_number key" and "string_to_number key < curve_n"
    and "affine_32 (generator_mul (string_to_number key))"
  shows "(\<exists>pk. private_key_to_public_key generator_mul key True = Inr pk \<and> length pk = 33)
       \<and> (\<exists>pk. private_key_to_public_key generator_mul key False = Inr pk \<and> length pk = 65)"
proof -
  from assms(4) obtain x y where point: "generator_mul (string_to_number key) = Point x y"
    by (cases "generator_mul (string_to_number key)") auto
  with assms(4) have affine: "affine_32 (Point x y)"
    by simp
  note pk = private_key_to_public_key_valid [of key generator_mul x y, OF assms(1-3) point affine]
  have "length ((if even (y div 256 ^ 31) then 0x02 else 0x03) # be32 x) = 33"
    by (simp add: length_be32)
  moreover have "length (0x04 # be32 x @ be32 y) = 65"
    by (simp add: length_be32)
  ultimately show ?thesis
    using pk by simp
qed

theorem public_key_lengths_witness:
  "length (replicate 31 0 @ [4 :: byte]) = 32
   \<and> 1 \<le> string_to_number (replicate 31 0 @ [4])
   \<and> string_to_number (replicate 31 0 @ [4]) < curve_n
   \<and> affine_32 (SECP256k1_generator_mul (string_to_number (replicate 31 0 @ [4])))
   \<and> (\<exists>pk. private_key_to_public_key SECP256k1_generator_mul (replicate 31 0 @ [4]) True
              = Inr pk \<and> length pk = 33)
   \<and> (\<exists>pk. private_key_to_public_key SECP256k1_generator_mul (replicate 31 0 @ [4]) False
              = Inr pk \<and> length pk = 65)"
proof -
  have affine: "affine_32 (SECP256k1_generator_mul (string_to_number (replicate 31 0 @ [4])))"
    by (simp only: key4_number SECP256k1_generator_mul_4 affine_32_4)
  have valid: "1 \<le> string_to_number (replicate 31 0 @ [4])"
    "string_to_number (replicate 31 0 @ [4]) < curve_n"
    using curve_n_bounds(1) by (simp_all only: key4_number)
  from public_key_lengths [of "replicate 31 0 @ [4]" SECP256k1_generator_mul,
      OF key4_length valid affine] key4_length valid affine
  show ?thesis
    by blast
qed

section \<open>The address\<close>

lemma length_hexlify: "length (hexlify bs) = 2 * length bs"
  by (induction bs) (simp_all add: hexlify_def)

lemma hexlify_Cons:
  "hexlify (b # bs) = hex_digit (unat b div 16) # hex_digit (unat b mod 16) # hexlify bs"
  by (simp add: hexlify_def)

lemma hexlify_drop: "drop (2 * k) (hexlify bs) = hexlify (drop k bs)"
proof (induction bs arbitrary: k)
  case Nil
  then show ?case by (simp add: hexlify_def)
next
  case (Cons b bs)
  show ?case
  proof (cases k)
    case 0
    then show ?thesis by simp
  next
    case (Suc j)
    with Cons.IH [of j] show ?thesis by (simp add: hexlify_Cons)
  qed
qed

lemma last_40_digits: "drop (length (hexlify d) - 40) (hexlify d) = hexlify (last_bytes 20 d)"
proof -
  have "length (hexlify d) - 40 = 2 * (length d - 20)"
    by (simp add: length_hexlify)
  then show ?thesis
    by (simp add: hexlify_drop last_bytes_def)
qed

lemma hex_digit_lowercase: "d < 16 \<Longrightarrow> hex_digit d \<in> set ''0123456789abcdef''"
  unfolding hex_digit_def by (rule nth_mem) simp

lemma nibbles_less_16: "unat (b :: byte) div 16 < 16" "unat (b :: byte) mod 16 < 16"
proof -
  have "unat b < 256"
    using unsigned_less [of b, where 'a = nat] by simp
  then show "unat b div 16 < 16" and "unat b mod 16 < 16"
    by simp_all
qed

lemma hexlify_lowercase: "lowercase_hex (hexlify bs)"
proof (induction bs)
  case Nil
  then show ?case by (simp add: hexlify_def lowercase_hex_def)
next
  case (Cons b bs)
  have "hex_digit (unat b div 16) \<in> set ''0123456789abcdef''"
    and "hex_digit (unat b mod 16) \<in> set ''0123456789abcdef''"
    by (simp_all only: hex_digit_lowercase nibbles_less_16)
  with Cons.IH show ?case
    by (simp add: hexlify_Cons lowercase_hex_def del: set_simps list.set)
qed

subsection \<open>Without an algorithm named keccak256\<close>

lemma keccak256_not_available: "''keccak256'' \<notin> set algorithms_available"
  by (simp add: algorithms_available_def)

lemma cpython_no_keccak256: "cpython_algorithms digest_of ''keccak256'' = None"
  by (simp add: cpython_algorithms_def keccak256_not_available)

lemma public_key_to_address_unsupported:
  "available ''keccak256'' = None \<Longrightarrow> public_key_to_address available public_key = Inl ValueError"
  by (simp add: public_key_to_address_def hashlib_new_def)

text \<open>
  C4, on the code as it is. The claim is that \<open>public_key_to_address\<close> returns \<open>0x\<close> and
  the last 20 bytes of a hash of the public key in lowercase hex. In CPython the call
  raises \<open>ValueError\<close> on every byte string, a compressed or an uncompressed key or any
  other, because \<^verbatim>\<open>hashlib.new('keccak256')\<close> names an algorithm that the interpreter
  does not have: no address is returned.
\<close>

theorem public_key_to_address_raises_ValueError:
  "public_key_to_address (cpython_algorithms digest_of) public_key = Inl ValueError
   \<and> hashlib_new (cpython_algorithms digest_of) ''keccak256'' = Inl ValueError"
  by (simp add: public_key_to_address_unsupported cpython_no_keccak256 hashlib_new_def)

subsection \<open>With an algorithm named keccak256\<close>

text \<open>
  In an interpreter that does have an algorithm of that name, with the digest function
  \<open>keccak256\<close>, the rest of the function is the account-model rule of section 4.3: on a
  byte string that is not empty it hashes the input, without its first byte when that
  byte is \<open>0x04\<close>, and returns \<open>0x\<close> and the last 20 bytes of the digest in lowercase hex.
\<close>

lemma public_key_to_address_value:
  assumes "available ''keccak256'' = Some keccak256" and "public_key \<noteq> []"
  shows "public_key_to_address available public_key =
           Inr (''0x'' @ hexlify (last_bytes 20 (keccak256
                  (if hd public_key = 0x04 then tl public_key else public_key))))"
proof -
  from assms(2) obtain b bs where pk: "public_key = b # bs"
    by (cases public_key) auto
  show ?thesis
    by (simp add: pk assms(1) public_key_to_address_def hashlib_new_def update_def
        hexdigest_def digest_def last_40_digits)
qed

lemma public_key_to_address_empty:
  "available ''keccak256'' = Some keccak256 \<Longrightarrow> public_key_to_address available [] = Inl IndexError"
  by (simp add: public_key_to_address_def hashlib_new_def)

lemma hex_digit_inj: "a < 16 \<Longrightarrow> b < 16 \<Longrightarrow> hex_digit a = hex_digit b \<Longrightarrow> a = b"
proof -
  assume "a < 16" and "b < 16" and eq: "hex_digit a = hex_digit b"
  have "distinct ''0123456789abcdef''"
    by simp
  moreover have "a < length ''0123456789abcdef''" and "b < length ''0123456789abcdef''"
    using \<open>a < 16\<close> \<open>b < 16\<close> by simp_all
  ultimately show "a = b"
    using eq unfolding hex_digit_def by (simp only: nth_eq_iff_index_eq)
qed

lemma hexlify_inj: "hexlify bs = hexlify cs \<Longrightarrow> bs = cs"
proof (induction bs arbitrary: cs)
  case Nil
  then have "length (hexlify cs) = 0"
    by (simp add: hexlify_def)
  then show ?case
    by (simp add: length_hexlify)
next
  case (Cons b bs)
  from Cons.prems have "length (hexlify cs) = 2 * Suc (length bs)"
    using length_hexlify [of "b # bs"] by simp
  then obtain c cs' where cs: "cs = c # cs'"
    by (cases cs) (simp_all add: length_hexlify)
  from Cons.prems have hi: "hex_digit (unat b div 16) = hex_digit (unat c div 16)"
    and lo: "hex_digit (unat b mod 16) = hex_digit (unat c mod 16)"
    and rest: "hexlify bs = hexlify cs'"
    by (simp_all add: cs hexlify_Cons)
  from hi have "unat b div 16 = unat c div 16"
    by (rule hex_digit_inj [OF nibbles_less_16(1) nibbles_less_16(1)])
  moreover from lo have "unat b mod 16 = unat c mod 16"
    by (rule hex_digit_inj [OF nibbles_less_16(2) nibbles_less_16(2)])
  ultimately have "unat b = unat c"
    by (metis div_mult_mod_eq)
  then have "b = c"
    by (simp add: word_unat_eq_iff)
  with Cons.IH [OF rest] cs show ?case
    by simp
qed

text \<open>
  There the compressed and the uncompressed key of one point are hashed as different byte
  strings, 33 bytes with the prefix against the 64 bytes of X and Y without it, and the
  two addresses differ exactly when the last 20 bytes of the two digests do.
\<close>

lemma addresses_differ_iff:
  assumes "length key = 32"
    and "1 \<le> string_to_number key" and "string_to_number key < curve_n"
    and "generator_mul (string_to_number key) = Point x y" and "affine_32 (Point x y)"
    and "private_key_to_public_key generator_mul key True = Inr compressed_key"
    and "private_key_to_public_key generator_mul key False = Inr uncompressed_key"
    and "available ''keccak256'' = Some keccak256"
  shows "compressed_key \<noteq> be32 x @ be32 y
       \<and> (public_key_to_address available compressed_key
             \<noteq> public_key_to_address available uncompressed_key
           \<longleftrightarrow> last_bytes 20 (keccak256 compressed_key)
                 \<noteq> last_bytes 20 (keccak256 (be32 x @ be32 y)))"
proof -
  note pk = private_key_to_public_key_valid [of key generator_mul x y, OF assms(1-5)]
  from pk(1) assms(6)
  have c: "compressed_key = (if even (y div 256 ^ 31) then 0x02 else 0x03) # be32 x"
    by simp
  from pk(2) assms(7) have u: "uncompressed_key = 0x04 # be32 x @ be32 y"
    by simp
  have "length compressed_key = 33"
    by (simp add: c length_be32)
  moreover have "length (be32 x @ be32 y) = 64"
    by (simp add: length_be32)
  ultimately have differ: "compressed_key \<noteq> be32 x @ be32 y"
    by auto
  have hd_c: "hd compressed_key \<noteq> 0x04"
    by (simp add: c)
  have c_nonempty: "compressed_key \<noteq> []"
    by (simp add: c)
  have a_c: "public_key_to_address available compressed_key
      = Inr (''0x'' @ hexlify (last_bytes 20 (keccak256 compressed_key)))"
    using public_key_to_address_value [of available keccak256 compressed_key, OF assms(8) c_nonempty]
      hd_c by simp
  have a_u: "public_key_to_address available uncompressed_key
      = Inr (''0x'' @ hexlify (last_bytes 20 (keccak256 (be32 x @ be32 y))))"
    using public_key_to_address_value [of available keccak256 uncompressed_key, OF assms(8)]
    by (simp add: u)
  show ?thesis
    using differ a_c a_u hexlify_inj by auto
qed

lemma public_keys_of_key_4:
  "private_key_to_public_key SECP256k1_generator_mul (replicate 31 0 @ [4]) True
     = Inr (0x03 # be32 X4)"
  "private_key_to_public_key SECP256k1_generator_mul (replicate 31 0 @ [4]) False
     = Inr (0x04 # be32 X4 @ be32 Y4)"
proof -
  have point: "SECP256k1_generator_mul (string_to_number (replicate 31 0 @ [4])) = Point X4 Y4"
    by (simp only: key4_number SECP256k1_generator_mul_4)
  have valid: "1 \<le> string_to_number (replicate 31 0 @ [4])"
    "string_to_number (replicate 31 0 @ [4]) < curve_n"
    using curve_n_bounds(1) by (simp_all only: key4_number)
  note pk = private_key_to_public_key_valid
    [of "replicate 31 0 @ [4]" SECP256k1_generator_mul X4 Y4,
      OF key4_length valid point affine_32_4]
  from pk(1) Y4_top_byte_odd
  show "private_key_to_public_key SECP256k1_generator_mul (replicate 31 0 @ [4]) True
     = Inr (0x03 # be32 X4)"
    by simp
  from pk(2)
  show "private_key_to_public_key SECP256k1_generator_mul (replicate 31 0 @ [4]) False
     = Inr (0x04 # be32 X4 @ be32 Y4)" .
qed

text \<open>
  C10, on the code as it is, at the private key 4. The claim is that the address of the
  compressed public key differs from the address of the uncompressed one. The two public
  keys are \<open>0x03\<close>, X4 and \<open>0x04\<close>, X4, Y4; in CPython \<open>public_key_to_address\<close> raises
  \<open>ValueError\<close> on both, so the two calls end alike and no two addresses are there to
  differ.
\<close>

theorem no_addresses_to_differ_at_key_4:
  "private_key_to_public_key SECP256k1_generator_mul (replicate 31 0 @ [4]) True
     = Inr (0x03 # be32 X4)
   \<and> private_key_to_public_key SECP256k1_generator_mul (replicate 31 0 @ [4]) False
     = Inr (0x04 # be32 X4 @ be32 Y4)
   \<and> public_key_to_address (cpython_algorithms digest_of) (0x03 # be32 X4) = Inl ValueError
   \<and> public_key_to_address (cpython_algorithms digest_of) (0x04 # be32 X4 @ be32 Y4)
     = Inl ValueError
   \<and> public_key_to_address (cpython_algorithms digest_of) (0x03 # be32 X4)
     = public_key_to_address (cpython_algorithms digest_of) (0x04 # be32 X4 @ be32 Y4)"
  by (simp add: public_keys_of_key_4 public_key_to_address_unsupported cpython_no_keccak256)

section \<open>Determinism\<close>











end
